theory Spec2Isabelle
  imports
    Main
    "HOL-Library.Char_ord"
    "HOL-Library.List_Lexorder"
    "HOL-Library.Product_Lexorder"
begin

section \<open>Data model\<close>

text \<open>
  One row of the \<^verbatim>\<open>questions\<close> table (\<^verbatim>\<open>manager.py\<close>, \<^verbatim>\<open>init_database\<close>). The primary key
  column \<^verbatim>\<open>id\<close> is the field \<open>qid\<close>. Columns declared \<^verbatim>\<open>NOT NULL\<close> are strings, the
  nullable ones are \<open>string option\<close> with \<open>None\<close> for SQL NULL; the column \<^verbatim>\<open>notes\<close> is
  the field \<open>notes_col\<close>. Strings are byte strings
  compared bytewise, as SQLite's default collation and Python's \<^verbatim>\<open>str\<close> order do on
  ASCII identifiers.
\<close>

record question =
  qid :: string
  subject_code :: string
  chapter_num :: string
  question_type :: string
  status :: string
  question_text :: string
  option_a :: "string option"
  option_b :: "string option"
  option_c :: "string option"
  option_d :: "string option"
  correct_answer :: string
  explanation :: "string option"
  knowledge :: "string option"
  notes_col :: "string option"
  created_date :: string
  last_modified :: string
  image_path :: "string option"

text \<open>The store is the list of rows of the table, in physical order.\<close>

type_synonym store = "question list"

datatype error =
  KeyError
  | ValueError
  | FileNotFoundError
  | IntegrityError
  | LayoutError
  | PdfReadError
  | OSError

section \<open>Configuration tables\<close>

text \<open>
  \<^verbatim>\<open>SUBJECTS\<close> is an insertion-ordered dictionary from subject code to a display name and
  an insertion-ordered dictionary of chapters; it is an association list here, so that the
  order of the keys is part of the value. The display names are Chinese in the source and
  are written as ASCII glosses; no property below depends on them.
\<close>

definition SUBJECTS :: "(string \<times> string \<times> (string \<times> string) list) list" where
  "SUBJECTS =
    [(''DS'', ''Data Structures'',
        [(''01'', ''Basic Concepts''), (''02'', ''Linear Lists''),
         (''03'', ''Stacks, Queues and Arrays''), (''04'', ''Trees and Binary Trees''),
         (''05'', ''Graphs''), (''06'', ''Searching''), (''07'', ''Sorting'')]),
     (''CO'', ''Computer Organization'',
        [(''01'', ''Computer System Overview''), (''02'', ''Data Representation and Arithmetic''),
         (''03'', ''Memory Hierarchy''), (''04'', ''Instruction Set''),
         (''05'', ''Central Processing Unit''), (''06'', ''Bus and IO System'')]),
     (''OS'', ''Operating Systems'',
        [(''01'', ''Operating System Overview''), (''02'', ''Process Management''),
         (''03'', ''Memory Management''), (''04'', ''File Management''),
         (''05'', ''IO Management'')]),
     (''CN'', ''Computer Networks'',
        [(''01'', ''Network Architecture''), (''02'', ''Physical Layer''),
         (''03'', ''Data Link Layer''), (''04'', ''Network Layer''),
         (''05'', ''Transport Layer''), (''06'', ''Application Layer'')])]"

definition SUBJECT_ORDER :: "string list" where
  "SUBJECT_ORDER = map fst SUBJECTS"

text \<open>\<^verbatim>\<open>list.index\<close>: the position of the first occurrence, \<open>None\<close> where Python raises.\<close>

fun index_of :: "'a \<Rightarrow> 'a list \<Rightarrow> nat option" where
  "index_of x [] = None"
| "index_of x (y # ys) =
     (if x = y then Some 0 else map_option Suc (index_of x ys))"

text \<open>\<^verbatim>\<open>{ch_num: idx for idx, ch_num in enumerate(info["chapters"].keys())}\<close> per subject.\<close>

definition CHAPTER_ORDER_MAP :: "(string \<times> (string \<times> nat) list) list" where
  "CHAPTER_ORDER_MAP =
     map (\<lambda>(subject_code, name, chapters).
            (subject_code, map (\<lambda>(idx, ch_num). (ch_num, idx)) (enumerate 0 (map fst chapters))))
         SUBJECTS"

section \<open>The editor's store operations (\<^verbatim>\<open>manager.py\<close>)\<close>

subsection \<open>\<^verbatim>\<open>update_question\<close>\<close>

text \<open>
  The statement \<^verbatim>\<open>UPDATE questions SET ... WHERE id = ?\<close> rewrites, in every row whose
  \<^verbatim>\<open>id\<close> equals the parameter, exactly the fifteen columns it lists; \<^verbatim>\<open>last_modified\<close> is
  bound to \<^verbatim>\<open>datetime.now().strftime("%Y-%m-%d")\<close>, the parameter \<open>today\<close>.
\<close>

definition update_row :: "string \<Rightarrow> question \<Rightarrow> question \<Rightarrow> question" where
  "update_row today question_data row =
     row\<lparr>subject_code := subject_code question_data,
         chapter_num := chapter_num question_data,
         question_type := question_type question_data,
         status := status question_data,
         question_text := question_text question_data,
         option_a := option_a question_data,
         option_b := option_b question_data,
         option_c := option_c question_data,
         option_d := option_d question_data,
         correct_answer := correct_answer question_data,
         explanation := explanation question_data,
         knowledge := knowledge question_data,
         notes_col := notes_col question_data,
         last_modified := today,
         image_path := image_path question_data\<rparr>"

definition update_question :: "string \<Rightarrow> question \<Rightarrow> store \<Rightarrow> store" where
  "update_question today question_data db =
     map (\<lambda>row. if qid row = qid question_data then update_row today question_data row else row) db"

subsection \<open>\<^verbatim>\<open>generate_question_id\<close>\<close>

text \<open>Decimal digits, \<^verbatim>\<open>int\<close> of a digit string, and the format \<^verbatim>\<open>{new_num:06d}\<close>.\<close>

definition is_digit :: "char \<Rightarrow> bool" where
  "is_digit c = (CHR ''0'' \<le> c \<and> c \<le> CHR ''9'')"

definition digit_val :: "char \<Rightarrow> nat" where
  "digit_val c = of_char c - 48"

definition digit_char :: "nat \<Rightarrow> char" where
  "digit_char d = char_of (48 + d)"

definition int_of_digits :: "string \<Rightarrow> nat" where
  "int_of_digits ds = foldl (\<lambda>a c. 10 * a + digit_val c) 0 ds"

function str_nat :: "nat \<Rightarrow> string" where
  "str_nat n = (if n < 10 then [digit_char n] else str_nat (n div 10) @ [digit_char (n mod 10)])"
  by pat_completeness auto
termination
  by (relation "measure (\<lambda>n. n)") auto

declare str_nat.simps [simp del]

definition format_06d :: "nat \<Rightarrow> string" where
  "format_06d n = (let s = str_nat n in replicate (6 - length s) (CHR ''0'') @ s)"

text \<open>
  \<^verbatim>\<open>re.match(rf"{subject_code}{chapter_num}(\d{{6}})", last_id)\<close>: the pattern is anchored at
  the start only, so the id has to begin with the prefix and six digits and may go on after
  them; the result is group 1, the six digits.

  The source puts the two codes into the pattern unescaped, and \<^verbatim>\<open>\d\<close> and \<^verbatim>\<open>int\<close> also accept
  decimal digits outside ASCII. \<open>re_match_id\<close> is the literal reading of the pattern: it is
  what the source computes when the codes are made of ASCII letters and digits
  (\<open>plain_code\<close>, as all configured codes are) and the identifier is ASCII text
  (\<open>ascii_text\<close>). Outside that domain it says nothing about the source, and the properties
  of the assigner below are stated inside it.
\<close>

definition is_alnum :: "char \<Rightarrow> bool" where
  "is_alnum c =
     (is_digit c \<or> (CHR ''A'' \<le> c \<and> c \<le> CHR ''Z'') \<or> (CHR ''a'' \<le> c \<and> c \<le> CHR ''z''))"

definition plain_code :: "string \<Rightarrow> bool" where
  "plain_code s = list_all is_alnum s"

definition ascii_text :: "string \<Rightarrow> bool" where
  "ascii_text s = list_all (\<lambda>c. (of_char c :: nat) < 128) s"

definition re_match_id :: "string \<Rightarrow> string \<Rightarrow> string option" where
  "re_match_id prefix s =
     (if take (length prefix) s = prefix
         \<and> length prefix + 6 \<le> length s
         \<and> list_all is_digit (take 6 (drop (length prefix) s))
      then Some (take 6 (drop (length prefix) s))
      else None)"

text \<open>
  The query \<^verbatim>\<open>SELECT id ... WHERE subject_code = ? AND chapter_num = ? ORDER BY id DESC LIMIT 1\<close>.
\<close>

definition select_last_id :: "store \<Rightarrow> string \<Rightarrow> string \<Rightarrow> string list" where
  "select_last_id db code num =
     take 1 (rev (sort (map qid (filter (\<lambda>q. subject_code q = code \<and> chapter_num q = num) db))))"

definition generate_question_id :: "store \<Rightarrow> string \<Rightarrow> string \<Rightarrow> string" where
  "generate_question_id db code num =
     (let new_num =
            (case select_last_id db code num of
               [] \<Rightarrow> 1
             | last_id # _ \<Rightarrow>
                 (case re_match_id (code @ num) last_id of
                    Some g \<Rightarrow> int_of_digits g + 1
                  | None \<Rightarrow> 1))
      in code @ num @ format_06d new_num)"

text \<open>
  The assigner as the specification words it: one more than the greatest sequence value
  among the existing identifiers of the pair that are the prefix followed by six digits,
  the others skipped; 1 if there is none.
\<close>

definition well_formed_id :: "string \<Rightarrow> string \<Rightarrow> bool" where
  "well_formed_id prefix s =
     (take (length prefix) s = prefix
        \<and> length s = length prefix + 6
        \<and> list_all is_digit (drop (length prefix) s))"

definition seq_of :: "string \<Rightarrow> string \<Rightarrow> nat" where
  "seq_of prefix s = int_of_digits (drop (length prefix) s)"

definition pair_ids :: "store \<Rightarrow> string \<Rightarrow> string \<Rightarrow> string list" where
  "pair_ids db code num =
     map qid (filter (\<lambda>q. subject_code q = code \<and> chapter_num q = num) db)"

definition spec_generate_question_id :: "store \<Rightarrow> string \<Rightarrow> string \<Rightarrow> string" where
  "spec_generate_question_id db code num =
     (let seqs = map (seq_of (code @ num)) (filter (well_formed_id (code @ num)) (pair_ids db code num))
      in code @ num @ format_06d (fold max seqs 0 + 1))"

subsection \<open>\<^verbatim>\<open>insert_question\<close>\<close>

text \<open>
  \<^verbatim>\<open>INSERT INTO questions\<close>: the primary key makes the statement fail with
  \<^verbatim>\<open>sqlite3.IntegrityError\<close> when the id is in the table, which is then left as it was.
\<close>

definition insert_question :: "question \<Rightarrow> store \<Rightarrow> error + store" where
  "insert_question question_data db =
     (if qid question_data \<in> set (map qid db) then Inl IntegrityError
      else Inr (db @ [question_data]))"

subsection \<open>\<^verbatim>\<open>duplicate_question\<close>\<close>





section \<open>Document assembly (\<^verbatim>\<open>generate_pdf.py\<close>)\<close>

subsection \<open>\<^verbatim>\<open>itertools.groupby\<close>\<close>

text \<open>
  \<^verbatim>\<open>groupby(xs, key)\<close> yields one pair (key, run) for every maximal run of adjacent elements
  with equal keys, in order. It does not sort.
\<close>

function groupby :: "('a \<Rightarrow> 'k) \<Rightarrow> 'a list \<Rightarrow> ('k \<times> 'a list) list" where
  "groupby key [] = []"
| "groupby key (x # xs) =
     (key x, x # takeWhile (\<lambda>y. key y = key x) xs)
       # groupby key (dropWhile (\<lambda>y. key y = key x) xs)"
  by pat_completeness auto
termination
  by (relation "measure (\<lambda>(key, xs). length xs)")
     (auto simp: length_dropWhile_le less_Suc_eq_le)

subsection \<open>Content blocks\<close>

text \<open>
  The story is the list of flowables handed to the layout engine. A paragraph's text is kept
  structured, so that the number an f-string puts in front of a text can be read back:
  \<open>Numbered n t\<close> is \<^verbatim>\<open>f"{n}. {t}"\<close> of the items section, \<open>Lettered c t\<close> is
  \<^verbatim>\<open>f"{opt}. {val}"\<close>, \<open>Answer n t\<close> is the line of the answers section made of the number
  \<open>n\<close>, the fixed words for "reference answer" and the answer \<open>t\<close>, \<open>Generated d\<close> is the
  cover's date line. \<open>render\<close> is the string the f-string builds (the fixed Chinese words as
  ASCII glosses). Spacer heights are in points (one inch is 72 points).
\<close>

datatype style = normal_style | subject_title_style | chapter_title_style | cover_title_style

datatype ptext =
  Plain string
  | Numbered nat string
  | Lettered char string
  | Answer nat string
  | Generated string

fun render :: "ptext \<Rightarrow> string" where
  "render (Plain s) = s"
| "render (Numbered n t) = str_nat n @ ''. '' @ t"
| "render (Lettered c t) = c # ''. '' @ t"
| "render (Answer n t) = str_nat n @ ''. Reference answer: '' @ t"
| "render (Generated d) = ''Generated: '' @ d"

datatype block =
  Paragraph ptext style
  | Spacer nat
  | PageBreak
  | Image string

text \<open>
  What building the story asks of the outside. Of the file system: whether a path exists.
  Of the layout library: whether its image constructor accepts a file (it raises otherwise,
  and the image helper catches every exception; the constructor reads the file lazily, so a
  damaged file is normally accepted here and fails later, inside \<^verbatim>\<open>doc.build\<close>), and whether
  its paragraph constructor accepts a text as markup (it parses the text and raises
  \<^verbatim>\<open>ValueError\<close> otherwise, for instance on a stray less-than sign; nothing catches that).
\<close>

record assets =
  path_exists :: "string \<Rightarrow> bool"
  image_loads :: "string \<Rightarrow> bool"
  markup_ok :: "string \<Rightarrow> bool"

text \<open>\<^verbatim>\<open>Paragraph(text, style)\<close>.\<close>

definition mk_paragraph :: "assets \<Rightarrow> ptext \<Rightarrow> style \<Rightarrow> error + block" where
  "mk_paragraph fs t st =
     (if markup_ok fs (render t) then Inr (Paragraph t st) else Inl ValueError)"

definition safe_image :: "assets \<Rightarrow> string option \<Rightarrow> block option" where
  "safe_image fs image_path_arg =
     (case image_path_arg of
        None \<Rightarrow> None
      | Some p \<Rightarrow>
          if p = [] \<or> \<not> path_exists fs p then None
          else if image_loads fs p then Some (Image p)
          else None)"

text \<open>\<^verbatim>\<open>s.replace('\n', '<br/>')\<close>.\<close>

definition replace_newlines :: "string \<Rightarrow> string" where
  "replace_newlines s = concat (map (\<lambda>c. if c = CHR 0x0A then ''<br/>'' else [c]) s)"

text \<open>\<^verbatim>\<open>SUBJECTS[subject_code]["name"]\<close> and \<^verbatim>\<open>SUBJECTS[subject_code]["chapters"][chapter_num]\<close>.\<close>

definition subject_name :: "string \<Rightarrow> error + string" where
  "subject_name code =
     (case map_of SUBJECTS code of
        None \<Rightarrow> Inl KeyError
      | Some (name, chapters) \<Rightarrow> Inr name)"

definition chapter_name :: "string \<Rightarrow> string \<Rightarrow> error + string" where
  "chapter_name code num =
     (case map_of SUBJECTS code of
        None \<Rightarrow> Inl KeyError
      | Some (name, chapters) \<Rightarrow>
          (case map_of chapters num of
             None \<Rightarrow> Inl KeyError
           | Some cname \<Rightarrow> Inr cname))"

subsection \<open>\<^verbatim>\<open>generate_content_pdf\<close>\<close>

text \<open>
  Every function below gives the blocks it appends to the story, or the exception that
  ends the call: the first one raised, in the order of the source.

  The loop over \<^verbatim>\<open>"ABCD"\<close>: a paragraph for every option whose value is truthy.
\<close>

fun option_paragraphs :: "assets \<Rightarrow> (char \<times> string option) list \<Rightarrow> error + block list" where
  "option_paragraphs fs [] = Inr []"
| "option_paragraphs fs ((opt, val) # rest) =
     (case val of
        None \<Rightarrow> option_paragraphs fs rest
      | Some v \<Rightarrow>
          if v = [] then option_paragraphs fs rest
          else
            (case mk_paragraph fs (Lettered opt v) normal_style of
               Inl e \<Rightarrow> Inl e
             | Inr p \<Rightarrow>
                 (case option_paragraphs fs rest of
                    Inl e \<Rightarrow> Inl e
                  | Inr ps \<Rightarrow> Inr (p # ps))))"

definition option_blocks :: "assets \<Rightarrow> question \<Rightarrow> error + block list" where
  "option_blocks fs q =
     option_paragraphs fs
       [(CHR ''A'', option_a q), (CHR ''B'', option_b q),
        (CHR ''C'', option_c q), (CHR ''D'', option_d q)]"

text \<open>The body of the innermost loop, for one question under the current counter.\<close>

definition question_blocks :: "assets \<Rightarrow> nat \<Rightarrow> question \<Rightarrow> error + block list" where
  "question_blocks fs question_index q =
     (case mk_paragraph fs (Numbered question_index (replace_newlines (question_text q)))
             normal_style of
        Inl e \<Rightarrow> Inl e
      | Inr p \<Rightarrow>
          (case (if question_type q = ''single_choice'' then option_blocks fs q else Inr []) of
             Inl e \<Rightarrow> Inl e
           | Inr opts \<Rightarrow>
               Inr ([p] @ opts
                    @ (case safe_image fs (image_path q) of
                         Some img \<Rightarrow> [Spacer 6, img]
                       | None \<Rightarrow> [])
                    @ [Spacer 12])))"

text \<open>
  The three nested iterations thread the pair of the story built so far and \<^verbatim>\<open>question_index\<close>.
\<close>

fun chapter_loop ::
  "assets \<Rightarrow> block list \<times> nat \<Rightarrow> question list \<Rightarrow> error + (block list \<times> nat)" where
  "chapter_loop fs (story, question_index) [] = Inr (story, question_index)"
| "chapter_loop fs (story, question_index) (q # qs) =
     (case question_blocks fs question_index q of
        Inl e \<Rightarrow> Inl e
      | Inr bs \<Rightarrow> chapter_loop fs (story @ bs, question_index + 1) qs)"

fun chapters_loop ::
  "assets \<Rightarrow> string \<Rightarrow> block list \<times> nat \<Rightarrow> (string \<times> question list) list
     \<Rightarrow> error + (block list \<times> nat)" where
  "chapters_loop fs code st [] = Inr st"
| "chapters_loop fs code (story, question_index) ((num, chapter_group) # rest) =
     (case chapter_name code num of
        Inl e \<Rightarrow> Inl e
      | Inr cname \<Rightarrow>
          (case mk_paragraph fs (Plain cname) chapter_title_style of
             Inl e \<Rightarrow> Inl e
           | Inr heading \<Rightarrow>
               (case chapter_loop fs (story @ [heading], question_index) chapter_group of
                  Inl e \<Rightarrow> Inl e
                | Inr st' \<Rightarrow> chapters_loop fs code st' rest)))"

fun subjects_loop ::
  "assets \<Rightarrow> block list \<times> nat \<Rightarrow> (string \<times> question list) list
     \<Rightarrow> error + (block list \<times> nat)" where
  "subjects_loop fs st [] = Inr st"
| "subjects_loop fs (story, question_index) ((code, subject_group) # rest) =
     (case subject_name code of
        Inl e \<Rightarrow> Inl e
      | Inr sname \<Rightarrow>
          (case mk_paragraph fs (Plain sname) subject_title_style of
             Inl e \<Rightarrow> Inl e
           | Inr heading \<Rightarrow>
               (case chapters_loop fs code (story @ [heading], question_index)
                       (groupby chapter_num subject_group) of
                  Inl e \<Rightarrow> Inl e
                | Inr (story', question_index') \<Rightarrow>
                    subjects_loop fs (story' @ [PageBreak], question_index') rest)))"

text \<open>The body of the answers loop, for the pair \<^verbatim>\<open>(i, q)\<close> of \<^verbatim>\<open>enumerate(questions, 1)\<close>.\<close>

definition explanation_blocks :: "assets \<Rightarrow> question \<Rightarrow> error + block list" where
  "explanation_blocks fs q =
     (case explanation q of
        None \<Rightarrow> Inr []
      | Some e \<Rightarrow>
          if e = [] then Inr []
          else
            (case mk_paragraph fs (Plain ''Explanation:'') normal_style of
               Inl err \<Rightarrow> Inl err
             | Inr p1 \<Rightarrow>
                 (case mk_paragraph fs (Plain (replace_newlines e)) normal_style of
                    Inl err \<Rightarrow> Inl err
                  | Inr p2 \<Rightarrow> Inr [p1, p2])))"

definition answer_blocks :: "assets \<Rightarrow> nat \<Rightarrow> question \<Rightarrow> error + block list" where
  "answer_blocks fs i q =
     (case mk_paragraph fs (Answer i (correct_answer q)) normal_style of
        Inl e \<Rightarrow> Inl e
      | Inr p \<Rightarrow>
          (case explanation_blocks fs q of
             Inl e \<Rightarrow> Inl e
           | Inr ex \<Rightarrow>
               Inr ([p] @ ex
                    @ (case image_path q of
                         None \<Rightarrow> []
                       | Some path \<Rightarrow>
                           if path \<noteq> [] then
                             (case safe_image fs (Some path) of
                                Some img \<Rightarrow> [Spacer 6, img]
                              | None \<Rightarrow> [])
                           else [])
                    @ [Spacer 12])))"

fun answers_loop ::
  "assets \<Rightarrow> block list \<Rightarrow> (nat \<times> question) list \<Rightarrow> error + block list" where
  "answers_loop fs story [] = Inr story"
| "answers_loop fs story ((i, q) # rest) =
     (case answer_blocks fs i q of
        Inl e \<Rightarrow> Inl e
      | Inr bs \<Rightarrow> answers_loop fs (story @ bs) rest)"

definition cover :: "assets \<Rightarrow> string \<Rightarrow> error + block list" where
  "cover fs today =
     (case mk_paragraph fs (Plain ''Open-CS-408'') cover_title_style of
        Inl e \<Rightarrow> Inl e
      | Inr t1 \<Rightarrow>
          (case mk_paragraph fs (Plain ''Workbook'') cover_title_style of
             Inl e \<Rightarrow> Inl e
           | Inr t2 \<Rightarrow>
               (case mk_paragraph fs (Generated today) normal_style of
                  Inl e \<Rightarrow> Inl e
                | Inr t3 \<Rightarrow> Inr [Spacer 108, t1, t2, Spacer 36, t3, PageBreak])))"

text \<open>
  The story \<^verbatim>\<open>generate_content_pdf\<close> hands to \<^verbatim>\<open>doc.build\<close>, or the exception raised while
  the story is built: the \<^verbatim>\<open>KeyError\<close> of a subject code or chapter number that \<^verbatim>\<open>SUBJECTS\<close>
  does not have, or the \<^verbatim>\<open>ValueError\<close> of a paragraph text the layout library rejects.
\<close>

definition generate_content_pdf :: "assets \<Rightarrow> string \<Rightarrow> question list \<Rightarrow> error + block list" where
  "generate_content_pdf fs today questions =
     (case cover fs today of
        Inl e \<Rightarrow> Inl e
      | Inr cv \<Rightarrow>
          (case mk_paragraph fs (Plain ''Exercises'') chapter_title_style of
             Inl e \<Rightarrow> Inl e
           | Inr h1 \<Rightarrow>
               (case subjects_loop fs (cv @ [h1, Spacer 12], 1)
                       (groupby subject_code questions) of
                  Inl e \<Rightarrow> Inl e
                | Inr (story, question_index) \<Rightarrow>
                    (case mk_paragraph fs (Plain ''Answers'') chapter_title_style of
                       Inl e \<Rightarrow> Inl e
                     | Inr h2 \<Rightarrow>
                         answers_loop fs (story @ [h2, Spacer 12]) (enumerate 1 questions)))))"







subsection \<open>\<^verbatim>\<open>add_bookmarks\<close>\<close>

text \<open>
  The outline writer keeps the outline items in the order they were added;
  \<^verbatim>\<open>add_outline_item\<close> returns a handle to the new item, here its position, which a later
  call passes as \<^verbatim>\<open>parent\<close>. Page numbers are Python integers.
\<close>

record outline_item =
  title :: string
  page_number :: int
  parent :: "nat option"

type_synonym writer = "outline_item list"

definition add_outline_item :: "writer \<Rightarrow> string \<Rightarrow> int \<Rightarrow> nat option \<Rightarrow> writer \<times> nat" where
  "add_outline_item w t p par = (w @ [\<lparr>title = t, page_number = p, parent = par\<rparr>], length w)"

fun bookmark_chapters ::
  "string \<Rightarrow> nat \<Rightarrow> writer \<times> int \<Rightarrow> (string \<times> question list) list \<Rightarrow> error + (writer \<times> int)" where
  "bookmark_chapters code subj_bm st [] = Inr st"
| "bookmark_chapters code subj_bm (w, current_page) ((num, chapter_group) # rest) =
     (case chapter_name code num of
        Inl e \<Rightarrow> Inl e
      | Inr cname \<Rightarrow>
          bookmark_chapters code subj_bm
            (fst (add_outline_item w cname current_page (Some subj_bm)), current_page + 1) rest)"

fun bookmark_subjects ::
  "nat \<Rightarrow> writer \<times> int \<Rightarrow> (string \<times> question list) list \<Rightarrow> error + (writer \<times> int)" where
  "bookmark_subjects part1 st [] = Inr st"
| "bookmark_subjects part1 (w, current_page) ((code, subject_group) # rest) =
     (case subject_name code of
        Inl e \<Rightarrow> Inl e
      | Inr sname \<Rightarrow>
          (let (w1, subj_bm) = add_outline_item w sname current_page (Some part1) in
           case bookmark_chapters code subj_bm (w1, current_page)
                  (groupby chapter_num subject_group) of
             Inl e \<Rightarrow> Inl e
           | Inr st' \<Rightarrow> bookmark_subjects part1 st' rest))"

text \<open>
  The outline \<^verbatim>\<open>add_bookmarks\<close> builds for an artifact of \<open>num_pages\<close> pages, before it is
  written out.
\<close>

definition add_bookmarks :: "nat \<Rightarrow> question list \<Rightarrow> error + writer" where
  "add_bookmarks num_pages questions =
     (let (w0, part1) = add_outline_item [] ''Exercises'' 1 None in
      case bookmark_subjects part1 (w0, 1) (groupby subject_code questions) of
        Inl e \<Rightarrow> Inl e
      | Inr (w1, current_page) \<Rightarrow>
          (let answer_page = int num_pages - 1 in
           Inr (fst (add_outline_item w1 ''Answers'' answer_page None))))"




subsection \<open>\<^verbatim>\<open>fetch_published_questions\<close>\<close>

text \<open>The inner function \<^verbatim>\<open>sort_key\<close>; tuples compare lexicographically.\<close>

definition sort_key_q :: "question \<Rightarrow> nat \<times> nat \<times> string" where
  "sort_key_q q =
     (let sub = subject_code q;
          chap = chapter_num q;
          sub_idx = (case index_of sub SUBJECT_ORDER of Some i \<Rightarrow> i | None \<Rightarrow> 999);
          chap_idx = (case map_of CHAPTER_ORDER_MAP sub of
                        Some m \<Rightarrow> (case map_of m chap of Some i \<Rightarrow> i | None \<Rightarrow> 999)
                      | None \<Rightarrow> 999)
      in (sub_idx, chap_idx, qid q))"

text \<open>
  The query keeps the rows with status \<^verbatim>\<open>published\<close> and orders them by \<^verbatim>\<open>id\<close>; the list
  is then sorted in place by \<^verbatim>\<open>sort_key\<close> (\<^verbatim>\<open>list.sort\<close> is stable).
\<close>

definition fetch_published_questions :: "store \<Rightarrow> question list" where
  "fetch_published_questions db =
     sort_key sort_key_q (sort_key qid (filter (\<lambda>q. status q = ''published'') db))"

subsection \<open>The script: module load and \<^verbatim>\<open>main\<close>\<close>

text \<open>
  What a run depends on outside the program: whether the font file exists, the rows of the
  table, the image files, the date, the layout engine (\<open>page_count\<close> is the number of pages
  \<^verbatim>\<open>doc.build\<close> lays a story out on, \<open>None\<close> when it raises), whether the PDF reader can
  open the staged artifact, and whether writing the outlined artifact runs to its end.
\<close>

record env =
  font_exists :: bool
  table :: store
  images :: assets
  date :: string
  page_count :: "block list \<Rightarrow> nat option"
  reader_ok :: bool
  write_ok :: bool

datatype artifact = ContentPdf nat "block list" | OutlinedPdf nat writer | Truncated

type_synonym files = "string \<Rightarrow> artifact option"

datatype message =
  FontMissing
  | NoPublished
  | Generating nat
  | ContentDone string
  | BookmarksDone string
  | Finished string
  | Traceback error

text \<open>The fixed output name (Chinese in the source, an ASCII gloss here) and the staging name.\<close>

definition OUTPUT_PDF :: string where
  "OUTPUT_PDF = ''Open-CS-408-workbook.pdf''"

definition temp_pdf :: string where
  "temp_pdf = ''temp_workbook.pdf''"

text \<open>
  \<^verbatim>\<open>generate_content_pdf\<close> with its effect on the files: \<^verbatim>\<open>doc.build\<close> writes the artifact
  at \<open>output_path\<close> when the layout succeeds.
\<close>

definition generate_content_pdf_file ::
  "env \<Rightarrow> question list \<Rightarrow> string \<Rightarrow> files \<Rightarrow> error option \<times> message list \<times> files" where
  "generate_content_pdf_file e questions output_path fls =
     (case generate_content_pdf (images e) (date e) questions of
        Inl err \<Rightarrow> (Some err, [], fls)
      | Inr story \<Rightarrow>
          (case page_count e story of
             None \<Rightarrow> (Some LayoutError, [], fls)
           | Some n \<Rightarrow> (None, [ContentDone output_path], fls(output_path \<mapsto> ContentPdf n story))))"

text \<open>
  \<^verbatim>\<open>add_bookmarks\<close> with its effect on the files: it reads the artifact at \<open>pdf_path\<close>, builds
  the outline, then opens the final name for writing, which creates or empties that file,
  and writes into it.
\<close>

definition add_bookmarks_file ::
  "env \<Rightarrow> string \<Rightarrow> question list \<Rightarrow> files \<Rightarrow> (error + string) \<times> message list \<times> files" where
  "add_bookmarks_file e pdf_path questions fls =
     (case fls pdf_path of
        None \<Rightarrow> (Inl FileNotFoundError, [], fls)
      | Some f \<Rightarrow>
          (case f of
             ContentPdf n story \<Rightarrow>
               if \<not> reader_ok e then (Inl PdfReadError, [], fls)
               else
                 (case add_bookmarks n questions of
                    Inl err \<Rightarrow> (Inl err, [], fls)
                  | Inr w \<Rightarrow>
                      if write_ok e then
                        (Inr OUTPUT_PDF, [BookmarksDone OUTPUT_PDF],
                         fls(OUTPUT_PDF \<mapsto> OutlinedPdf n w))
                      else (Inl OSError, [], fls(OUTPUT_PDF \<mapsto> Truncated)))
           | OutlinedPdf n w \<Rightarrow> (Inl PdfReadError, [], fls)
           | Truncated \<Rightarrow> (Inl PdfReadError, [], fls)))"

text \<open>\<^verbatim>\<open>main\<close>: the exception that ends it, if any, what it printed, and the files it leaves.\<close>

definition main :: "env \<Rightarrow> files \<Rightarrow> error option \<times> message list \<times> files" where
  "main e fls =
     (if \<not> font_exists e then (None, [FontMissing], fls)
      else
        let questions = fetch_published_questions (table e) in
        if questions = [] then (None, [NoPublished], fls)
        else
          (case generate_content_pdf_file e questions temp_pdf fls of
             (Some err, out1, fls1) \<Rightarrow> (Some err, Generating (length questions) # out1, fls1)
           | (None, out1, fls1) \<Rightarrow>
               (case add_bookmarks_file e temp_pdf questions fls1 of
                  (Inl err, out2, fls2) \<Rightarrow>
                    (Some err, Generating (length questions) # out1 @ out2, fls2)
                | (Inr final_pdf, out2, fls2) \<Rightarrow>
                    (None, Generating (length questions) # out1 @ out2 @ [Finished final_pdf],
                     fls2(temp_pdf := None)))))"

text \<open>
  Running the file as a script: the module body registers the font first and raises
  \<^verbatim>\<open>FileNotFoundError\<close> when it is missing; then \<^verbatim>\<open>main()\<close> runs. The interpreter exits
  with status 1 and a traceback on an uncaught exception, with status 0 when \<^verbatim>\<open>main\<close>
  returns.
\<close>

definition run_script :: "env \<Rightarrow> files \<Rightarrow> nat \<times> message list \<times> files" where
  "run_script e fls =
     (if \<not> font_exists e then (1, [Traceback FileNotFoundError], fls)
      else
        (case main e fls of
           (None, out, fls') \<Rightarrow> (0, out, fls')
         | (Some err, out, fls') \<Rightarrow> (1, out @ [Traceback err], fls')))"

definition exit_status :: "nat \<times> message list \<times> files \<Rightarrow> nat" where
  "exit_status r = fst r"

definition printed :: "nat \<times> message list \<times> files \<Rightarrow> message list" where
  "printed r = fst (snd r)"

definition files_after :: "nat \<times> message list \<times> files \<Rightarrow> files" where
  "files_after r = snd (snd r)"

section \<open>Notions used in the properties\<close>

















section \<open>Sample data\<close>

text \<open>
  A single-choice row with two populated choices and no image; a row with no populated
  choice and an image reference that names no file; a file system without images.
\<close>

definition q_ex :: "string \<Rightarrow> string \<Rightarrow> string \<Rightarrow> string \<Rightarrow> question" where
  "q_ex i s c st =
     \<lparr>qid = i, subject_code = s, chapter_num = c, question_type = ''single_choice'',
      status = st, question_text = ''Q'', option_a = Some ''x'', option_b = Some [],
      option_c = None, option_d = Some ''y'', correct_answer = ''A'',
      explanation = None, knowledge = None, notes_col = None,
      created_date = ''2024-01-01'', last_modified = ''2024-01-02'', image_path = None\<rparr>"


definition fs0 :: assets where
  "fs0 = \<lparr>path_exists = (\<lambda>p. False), image_loads = (\<lambda>p. False),
           markup_ok = (\<lambda>t. CHR ''<'' \<notin> set t)\<rparr>"

text \<open>Three published records over two subjects and three chapters, their story and outline.\<close>

definition qs0 :: "question list" where
  "qs0 = [q_ex ''DS01000001'' ''DS'' ''01'' ''published'',
          q_ex ''DS02000001'' ''DS'' ''02'' ''published'',
          q_ex ''CO01000001'' ''CO'' ''01'' ''published'']"





definition db2 :: store where
  "db2 = [q_ex ''DS01000005'' ''DS'' ''01'' ''draft'', q_ex ''DS0112'' ''DS'' ''01'' ''draft'']"

definition db4 :: store where
  "db4 = [q_ex ''DS01000001'' ''DS'' ''01'' ''draft'', q_ex ''DS0112'' ''DS'' ''01'' ''draft'']"

definition db3 :: store where
  "db3 = [q_ex ''DS01000012'' ''DS'' ''01'' ''draft'', q_ex ''DS01000005'' ''DS'' ''01'' ''published'',
          q_ex ''DS02000040'' ''DS'' ''02'' ''draft'']"


text \<open>
  A run in which every external step succeeds, on the three sample records and five pages,
  starting from an empty directory.
\<close>

definition no_files :: files where
  "no_files = (\<lambda>name. None)"

definition env0 :: env where
  "env0 = \<lparr>font_exists = True, table = qs0, images = fs0, date = ''2025-05-05'',
           page_count = (\<lambda>story. Some 5), reader_ok = True, write_ok = True\<rparr>"

section \<open>Properties\<close>

subsection \<open>Update\<close>

text \<open>
  C10. For every record, the update operation leaves the record's id and created_date
  unchanged, sets last_modified to the current date, and leaves every other row of the
  store untouched: the table keeps its rows in place, row by row the id and the creation
  date are the old ones, a row with another id is the old row, and a row with the updated
  id carries the current date.
\<close>

theorem update_question_frame:
  "length (update_question today question_data db) = length db \<and>
   map qid (update_question today question_data db) = map qid db \<and>
   map created_date (update_question today question_data db) = map created_date db \<and>
   (\<forall>i < length db.
      (qid (db ! i) \<noteq> qid question_data \<longrightarrow>
         update_question today question_data db ! i = db ! i) \<and>
      (qid (db ! i) = qid question_data \<longrightarrow>
         last_modified (update_question today question_data db ! i) = today))"
  by (simp add: update_question_def update_row_def)

theorem update_question_frame_witness:
  "(let db = [q_ex ''DS01000001'' ''DS'' ''01'' ''draft'', q_ex ''DS01000002'' ''DS'' ''01'' ''draft''];
        question_data = q_ex ''DS01000002'' ''DS'' ''02'' ''published'';
        db' = update_question ''2025-05-05'' question_data db
    in (1::nat) < length db \<and> qid (db ! 0) \<noteq> qid question_data \<and> qid (db ! 1) = qid question_data \<and>
       db' ! 0 = db ! 0 \<and> last_modified (db' ! 1) = ''2025-05-05'' \<and>
       map qid db' = map qid db \<and> map created_date db' = map created_date db)"
  using update_question_frame [of "''2025-05-05''" "q_ex ''DS01000002'' ''DS'' ''02'' ''published''"
      "[q_ex ''DS01000001'' ''DS'' ''01'' ''draft'', q_ex ''DS01000002'' ''DS'' ''01'' ''draft'']"]
  by (simp add: q_ex_def Let_def update_question_def update_row_def)


subsection \<open>Numbering of items and answers\<close>

































subsection \<open>Outline anchors\<close>


















subsection \<open>Choices and images of an item\<close>


















subsection \<open>Duplication\<close>






subsection \<open>Order of the loaded catalog\<close>



























subsection \<open>Identifier assignment\<close>

lemma is_digit_iff: "is_digit c \<longleftrightarrow> 48 \<le> (of_char c :: nat) \<and> (of_char c :: nat) \<le> 57"
  by (simp add: is_digit_def less_eq_char_def)

lemma digit_val_less: "is_digit c \<Longrightarrow> digit_val c < 10"
  using is_digit_iff[of c] unfolding digit_val_def by arith

lemma digit_val_mono:
  "is_digit a \<Longrightarrow> is_digit b \<Longrightarrow> (a < b \<longleftrightarrow> digit_val a < digit_val b)"
  using is_digit_iff[of a] is_digit_iff[of b] unfolding digit_val_def less_char_def by arith

lemma digit_val_inj:
  "is_digit a \<Longrightarrow> is_digit b \<Longrightarrow> (a = b \<longleftrightarrow> digit_val a = digit_val b)"
proof -
  assume d: "is_digit a" "is_digit b"
  have "a = b \<longleftrightarrow> (of_char a :: nat) = of_char b" by (auto dest: injD[OF inj_of_char])
  also have "\<dots> \<longleftrightarrow> digit_val a = digit_val b"
    using d is_digit_iff[of a] is_digit_iff[of b] unfolding digit_val_def by arith
  finally show ?thesis .
qed

lemma foldl_digits:
  "foldl (\<lambda>a c. 10 * a + digit_val c) a ds
     = a * 10 ^ length ds + foldl (\<lambda>a c. 10 * a + digit_val c) 0 ds"
proof (induction ds arbitrary: a)
  case Nil
  show ?case by simp
next
  case (Cons d ds)
  define f where "f = (\<lambda>a c. 10 * a + digit_val c)"
  have IH: "\<And>a. foldl f a ds = a * 10 ^ length ds + foldl f 0 ds"
    unfolding f_def by (rule Cons.IH)
  have "foldl f a (d # ds) = foldl f (10 * a + digit_val d) ds" by (simp add: f_def)
  also have "\<dots> = (10 * a + digit_val d) * 10 ^ length ds + foldl f 0 ds" by (rule IH)
  also have "\<dots> = a * 10 ^ length (d # ds) + (digit_val d * 10 ^ length ds + foldl f 0 ds)"
    by (simp add: algebra_simps)
  also have "digit_val d * 10 ^ length ds + foldl f 0 ds = foldl f (digit_val d) ds"
    by (rule IH [symmetric])
  also have "foldl f (digit_val d) ds = foldl f 0 (d # ds)" by (simp add: f_def)
  finally show ?case unfolding f_def .
qed

lemma int_of_digits_Cons:
  "int_of_digits (d # ds) = digit_val d * 10 ^ length ds + int_of_digits ds"
  by (simp add: int_of_digits_def foldl_digits[of "digit_val d"])

lemma int_of_digits_Nil: "int_of_digits [] = 0"
  by (simp add: int_of_digits_def)

lemma int_of_digits_bound: "list_all is_digit ds \<Longrightarrow> int_of_digits ds < 10 ^ length ds"
proof (induction ds)
  case Nil
  show ?case by (simp add: int_of_digits_Nil)
next
  case (Cons d ds)
  define P :: nat where "P = 10 ^ length ds"
  from Cons have b: "int_of_digits ds < P" and d: "digit_val d \<le> 9"
    using digit_val_less[of d] by (simp_all add: P_def)
  have "digit_val d * P \<le> 9 * P" using d by (rule mult_le_mono1)
  with b have "digit_val d * P + int_of_digits ds < 10 * P" by linarith
  then show ?case by (simp add: int_of_digits_Cons P_def)
qed

lemma digits_order:
  "length a = length b \<Longrightarrow> list_all is_digit a \<Longrightarrow> list_all is_digit b \<Longrightarrow>
     (a \<le> b \<longleftrightarrow> int_of_digits a \<le> int_of_digits b)"
proof (induction a b rule: list_induct2)
  case Nil
  show ?case by simp
next
  case (Cons x xs y ys)
  then have dx: "is_digit x" and dy: "is_digit y"
    and ax: "list_all is_digit xs" and ay: "list_all is_digit ys" by simp_all
  from Cons.IH[OF ax ay] have IH: "xs \<le> ys \<longleftrightarrow> int_of_digits xs \<le> int_of_digits ys" .
  define P :: nat where "P = 10 ^ length xs"
  have bx: "int_of_digits xs < P" using int_of_digits_bound[OF ax] by (simp add: P_def)
  have by': "int_of_digits ys < P" using int_of_digits_bound[OF ay] Cons.hyps by (simp add: P_def)
  have vx: "int_of_digits (x # xs) = digit_val x * P + int_of_digits xs"
    by (simp add: int_of_digits_Cons P_def)
  have vy: "int_of_digits (y # ys) = digit_val y * P + int_of_digits ys"
    using Cons.hyps by (simp add: int_of_digits_Cons P_def)
  consider (lt) "digit_val x < digit_val y" | (eq) "digit_val x = digit_val y"
    | (gt) "digit_val y < digit_val x" by linarith
  then show ?case
  proof cases
    case lt
    then have c: "x < y" using digit_val_mono[OF dx dy] by simp
    from lt have "Suc (digit_val x) \<le> digit_val y" by simp
    then have "Suc (digit_val x) * P \<le> digit_val y * P" by (rule mult_le_mono1)
    then have "digit_val x * P + P \<le> digit_val y * P" by simp
    with bx have "digit_val x * P + int_of_digits xs \<le> digit_val y * P + int_of_digits ys"
      by linarith
    with c show ?thesis by (simp add: vx vy)
  next
    case eq
    then have xy: "x = y" using digit_val_inj[OF dx dy] by simp
    have "int_of_digits (x # xs) \<le> int_of_digits (y # ys)
            \<longleftrightarrow> int_of_digits xs \<le> int_of_digits ys"
      unfolding vx vy eq by simp
    with xy IH show ?thesis by simp
  next
    case gt
    then have "y < x" using digit_val_mono[OF dy dx] by simp
    then have n: "\<not> x < y" "x \<noteq> y" by auto
    from gt have "Suc (digit_val y) \<le> digit_val x" by simp
    then have "Suc (digit_val y) * P \<le> digit_val x * P" by (rule mult_le_mono1)
    then have "digit_val y * P + P \<le> digit_val x * P" by simp
    with by' have "digit_val y * P + int_of_digits ys < digit_val x * P + int_of_digits xs"
      by linarith
    then have "\<not> int_of_digits (x # xs) \<le> int_of_digits (y # ys)" by (simp add: vx vy)
    with n show ?thesis by simp
  qed
qed

lemma prefix_order: "(p @ a \<le> p @ b) \<longleftrightarrow> (a \<le> (b :: string))"
  by (induction p) simp_all

lemma well_formed_split:
  "well_formed_id p s \<Longrightarrow> s = p @ drop (length p) s \<and> length (drop (length p) s) = 6
     \<and> list_all is_digit (drop (length p) s)"
  by (metis well_formed_id_def append_take_drop_id add_diff_cancel_left' length_drop)

lemma well_formed_order:
  assumes "well_formed_id p s" "well_formed_id p t"
  shows "s \<le> t \<longleftrightarrow> seq_of p s \<le> seq_of p t"
proof -
  from well_formed_split[OF assms(1)] obtain a where
    a: "s = p @ a" "length a = 6" "list_all is_digit a" "drop (length p) s = a" by metis
  from well_formed_split[OF assms(2)] obtain b where
    b: "t = p @ b" "length b = 6" "list_all is_digit b" "drop (length p) t = b" by metis
  have "s \<le> t \<longleftrightarrow> a \<le> b" using a(1) b(1) by (simp add: prefix_order)
  also have "\<dots> \<longleftrightarrow> int_of_digits a \<le> int_of_digits b"
    using digits_order[of a b] a(2,3) b(2,3) by simp
  finally show ?thesis using a(4) b(4) by (simp add: seq_of_def)
qed

lemma well_formed_match:
  "well_formed_id p s \<Longrightarrow> re_match_id p s = Some (drop (length p) s)"
  by (simp add: well_formed_id_def re_match_id_def)

lemma take_1_rev: "xs \<noteq> [] \<Longrightarrow> take (Suc 0) (rev xs) = [last xs]"
  by (cases xs rule: rev_cases) simp_all

lemma last_sorted_Max:
  fixes xs :: "('a :: linorder) list"
  shows "sorted xs \<Longrightarrow> xs \<noteq> [] \<Longrightarrow> last xs = Max (set xs)"
proof (cases xs rule: rev_cases)
  case Nil
  assume "xs \<noteq> []"
  with Nil show ?thesis by simp
next
  case (snoc ys y)
  assume "sorted xs"
  with snoc have "\<forall>x \<in> set ys. x \<le> y" by (simp add: sorted_append)
  then have "Max (set (ys @ [y])) = y" by (intro Max_eqI) auto
  with snoc show ?thesis by simp
qed

lemma select_last_id_Max:
  "pair_ids db code num \<noteq> [] \<Longrightarrow>
     select_last_id db code num = [Max (set (pair_ids db code num))]"
proof -
  assume ne: "pair_ids db code num \<noteq> []"
  have sne: "sort (pair_ids db code num) \<noteq> []" using ne by (metis set_sort set_empty)
  have "select_last_id db code num = take 1 (rev (sort (pair_ids db code num)))"
    by (simp add: select_last_id_def pair_ids_def)
  also have "\<dots> = [last (sort (pair_ids db code num))]"
    using sne by (simp add: take_1_rev)
  also have "last (sort (pair_ids db code num)) = Max (set (pair_ids db code num))"
    using last_sorted_Max[of "sort (pair_ids db code num)"] sne by simp
  finally show ?thesis .
qed

lemma select_last_id_Nil:
  "pair_ids db code num = [] \<Longrightarrow> select_last_id db code num = []"
  by (simp add: select_last_id_def pair_ids_def)

lemma format_06d_1: "format_06d (Suc 0) = ''000001''"
  by code_simp

lemma generate_none:
  "pair_ids db code num = [] \<Longrightarrow> generate_question_id db code num = code @ num @ ''000001''"
  by (simp add: generate_question_id_def select_last_id_Nil format_06d_1)

lemma generate_restart:
  "pair_ids db code num \<noteq> [] \<Longrightarrow>
   re_match_id (code @ num) (Max (set (pair_ids db code num))) = None \<Longrightarrow>
     generate_question_id db code num = code @ num @ ''000001''"
  by (simp add: generate_question_id_def select_last_id_Max format_06d_1)

lemma generate_next:
  "pair_ids db code num \<noteq> [] \<Longrightarrow>
   re_match_id (code @ num) (Max (set (pair_ids db code num))) = Some g \<Longrightarrow>
     generate_question_id db code num = code @ num @ format_06d (int_of_digits g + 1)"
  by (simp add: generate_question_id_def select_last_id_Max)

lemma fold_max_nat: "fold max xs (a :: nat) = Max (set (a # xs))"
  by (rule Max.set_eq_fold [symmetric])

lemma generate_well_formed:
  assumes "plain_code code" "plain_code num"
    and "\<forall>i \<in> set (pair_ids db code num). well_formed_id (code @ num) i"
  shows "generate_question_id db code num = spec_generate_question_id db code num"
proof (cases "pair_ids db code num = []")
  case True
  then show ?thesis
    by (simp add: generate_none spec_generate_question_id_def format_06d_1)
next
  case False
  let ?ids = "pair_ids db code num" and ?p = "code @ num"
  let ?m = "Max (set ?ids)"
  have m_in: "?m \<in> set ?ids" using False by simp
  then have wf: "well_formed_id ?p ?m" using assms by blast
  have g: "generate_question_id db code num = code @ num @ format_06d (seq_of ?p ?m + 1)"
    using generate_next[OF False well_formed_match[OF wf]] by (simp add: seq_of_def)
  have f: "filter (well_formed_id ?p) ?ids = ?ids" using assms by (simp add: filter_id_conv)
  have "Max (set (0 # map (seq_of ?p) ?ids)) = seq_of ?p ?m"
  proof (rule Max_eqI)
    show "finite (set (0 # map (seq_of ?p) ?ids))" by simp
    show "seq_of ?p ?m \<in> set (0 # map (seq_of ?p) ?ids)" using m_in by simp
    fix y assume "y \<in> set (0 # map (seq_of ?p) ?ids)"
    then consider "y = 0" | i where "i \<in> set ?ids" "y = seq_of ?p i" by auto
    then show "y \<le> seq_of ?p ?m"
    proof cases
      case 1
      then show ?thesis by simp
    next
      case 2
      then have "i \<le> ?m" by simp
      with well_formed_order[of ?p i ?m] assms 2 wf show ?thesis by simp
    qed
  qed
  then have "spec_generate_question_id db code num = code @ num @ format_06d (seq_of ?p ?m + 1)"
    by (simp add: spec_generate_question_id_def f fold_max_nat Let_def)
  with g show ?thesis by simp
qed

lemma of_char_digit_char: "d < 10 \<Longrightarrow> (of_char (digit_char d) :: nat) = 48 + d"
  by (simp add: digit_char_def of_char_of)

lemma is_digit_digit_char: "d < 10 \<Longrightarrow> is_digit (digit_char d)"
  by (simp add: is_digit_iff of_char_digit_char)

lemma digit_val_digit_char: "d < 10 \<Longrightarrow> digit_val (digit_char d) = d"
  by (simp add: digit_val_def of_char_digit_char)

lemma int_of_digits_snoc: "int_of_digits (ds @ [c]) = 10 * int_of_digits ds + digit_val c"
  by (simp add: int_of_digits_def)

lemma str_nat_digits: "list_all is_digit (str_nat n)"
proof (induction n rule: str_nat.induct)
  case (1 n)
  show ?case
  proof (cases "n < 10")
    case True
    then show ?thesis by (subst str_nat.simps) (simp add: is_digit_digit_char)
  next
    case False
    with 1 show ?thesis by (subst str_nat.simps) (simp add: is_digit_digit_char)
  qed
qed

lemma int_of_str_nat: "int_of_digits (str_nat n) = n"
proof (induction n rule: str_nat.induct)
  case (1 n)
  show ?case
  proof (cases "n < 10")
    case True
    then show ?thesis
      by (subst str_nat.simps) (simp add: int_of_digits_Cons int_of_digits_Nil digit_val_digit_char)
  next
    case False
    with 1 have "int_of_digits (str_nat (n div 10)) = n div 10" by simp
    with False show ?thesis
      by (subst str_nat.simps) (simp add: int_of_digits_snoc digit_val_digit_char)
  qed
qed

lemma length_str_nat: "n < 10 ^ k \<Longrightarrow> 0 < k \<Longrightarrow> length (str_nat n) \<le> k"
proof (induction n arbitrary: k rule: str_nat.induct)
  case (1 n)
  show ?case
  proof (cases "n < 10")
    case True
    with "1.prems" show ?thesis by (subst str_nat.simps) simp
  next
    case False
    obtain j where k: "k = Suc j" using "1.prems"(2) by (cases k) auto
    have j: "0 < j"
    proof (rule ccontr)
      assume "\<not> 0 < j"
      with k "1.prems"(1) False show False by simp
    qed
    from "1.prems"(1) k have "n div 10 < 10 ^ j" by (simp add: less_mult_imp_div_less mult.commute)
    from "1.IH"[OF False this j] False k show ?thesis
      by (subst str_nat.simps) simp
  qed
qed

lemma int_of_digits_zeros: "int_of_digits (replicate k (CHR ''0'') @ ds) = int_of_digits ds"
  by (induction k) (simp_all add: int_of_digits_Cons digit_val_def)

lemma format_06d_padded:
  assumes "n < 1000000"
  shows "length (format_06d n) = 6" "list_all is_digit (format_06d n)"
    "int_of_digits (format_06d n) = n"
proof -
  have "n < 10 ^ 6" using assms by simp
  from length_str_nat[OF this] have l: "length (str_nat n) \<le> 6" by simp
  then show "length (format_06d n) = 6" by (simp add: format_06d_def Let_def)
  have z: "is_digit (CHR ''0'')" by (simp add: is_digit_def)
  show "list_all is_digit (format_06d n)"
    using str_nat_digits[of n] z by (auto simp add: format_06d_def Let_def list_all_iff)
  show "int_of_digits (format_06d n) = n"
    by (simp add: format_06d_def Let_def int_of_digits_zeros int_of_str_nat)
qed

text \<open>
  C3. The specification is right and the code misses it. With the identifiers DS01000005 and
  DS0112 stored for the pair (DS, 01), all codes and identifiers plain ASCII, the second
  identifier is not the prefix followed by six digits and is the greater in string order:
  the assigner reads it alone, restarts at 1 and returns DS01000001, where skipping it gives
  DS01000006. With DS01000001 and DS0112 stored it returns DS01000001 again, an identifier
  the pair already has, so the insert that follows is rejected.
\<close>

theorem generate_question_id_restarts:
  "plain_code ''DS'' \<and> plain_code ''01'' \<and>
   pair_ids db2 ''DS'' ''01'' = [''DS01000005'', ''DS0112''] \<and>
   list_all ascii_text (pair_ids db2 ''DS'' ''01'') \<and>
   well_formed_id ''DS01'' ''DS01000005'' \<and> \<not> well_formed_id ''DS01'' ''DS0112'' \<and>
   generate_question_id db2 ''DS'' ''01'' = ''DS01000001'' \<and>
   spec_generate_question_id db2 ''DS'' ''01'' = ''DS01000006'' \<and>
   pair_ids db4 ''DS'' ''01'' = [''DS01000001'', ''DS0112''] \<and>
   generate_question_id db4 ''DS'' ''01'' = ''DS01000001'' \<and>
   spec_generate_question_id db4 ''DS'' ''01'' = ''DS01000002'' \<and>
   insert_question (q_ex (generate_question_id db4 ''DS'' ''01'') ''DS'' ''01'' ''draft'') db4
     = Inl IntegrityError"
  by code_simp

subsection \<open>Exit status of the script\<close>

lemma names_differ: "temp_pdf \<noteq> OUTPUT_PDF"
  by (simp add: temp_pdf_def OUTPUT_PDF_def)

lemma run_no_font:
  "\<not> font_exists e \<Longrightarrow> run_script e fls = (1, [Traceback FileNotFoundError], fls)"
  by (simp add: run_script_def)

lemma run_empty:
  "font_exists e \<Longrightarrow> fetch_published_questions (table e) = [] \<Longrightarrow>
     run_script e fls = (0, [NoPublished], fls)"
  by (simp add: run_script_def main_def)

lemma run_content_error:
  "font_exists e \<Longrightarrow> fetch_published_questions (table e) \<noteq> [] \<Longrightarrow>
   generate_content_pdf (images e) (date e) (fetch_published_questions (table e)) = Inl err \<Longrightarrow>
     run_script e fls
       = (1, [Generating (length (fetch_published_questions (table e))), Traceback err], fls)"
  by (simp add: run_script_def main_def generate_content_pdf_file_def Let_def)

lemma run_layout_error:
  "font_exists e \<Longrightarrow> fetch_published_questions (table e) \<noteq> [] \<Longrightarrow>
   generate_content_pdf (images e) (date e) (fetch_published_questions (table e)) = Inr story \<Longrightarrow>
   page_count e story = None \<Longrightarrow>
     run_script e fls
       = (1, [Generating (length (fetch_published_questions (table e))), Traceback LayoutError], fls)"
  by (simp add: run_script_def main_def generate_content_pdf_file_def Let_def)

lemma run_reader_error:
  "font_exists e \<Longrightarrow> fetch_published_questions (table e) \<noteq> [] \<Longrightarrow>
   generate_content_pdf (images e) (date e) (fetch_published_questions (table e)) = Inr story \<Longrightarrow>
   page_count e story = Some n \<Longrightarrow> \<not> reader_ok e \<Longrightarrow>
     run_script e fls
       = (1, [Generating (length (fetch_published_questions (table e))), ContentDone temp_pdf,
              Traceback PdfReadError],
          fls(temp_pdf \<mapsto> ContentPdf n story))"
  by (simp add: run_script_def main_def generate_content_pdf_file_def add_bookmarks_file_def Let_def)

lemma run_outline_error:
  "font_exists e \<Longrightarrow> fetch_published_questions (table e) \<noteq> [] \<Longrightarrow>
   generate_content_pdf (images e) (date e) (fetch_published_questions (table e)) = Inr story \<Longrightarrow>
   page_count e story = Some n \<Longrightarrow> reader_ok e \<Longrightarrow>
   add_bookmarks n (fetch_published_questions (table e)) = Inl err \<Longrightarrow>
     run_script e fls
       = (1, [Generating (length (fetch_published_questions (table e))), ContentDone temp_pdf,
              Traceback err],
          fls(temp_pdf \<mapsto> ContentPdf n story))"
  by (simp add: run_script_def main_def generate_content_pdf_file_def add_bookmarks_file_def Let_def)

lemma run_write_error:
  "font_exists e \<Longrightarrow> fetch_published_questions (table e) \<noteq> [] \<Longrightarrow>
   generate_content_pdf (images e) (date e) (fetch_published_questions (table e)) = Inr story \<Longrightarrow>
   page_count e story = Some n \<Longrightarrow> reader_ok e \<Longrightarrow>
   add_bookmarks n (fetch_published_questions (table e)) = Inr w \<Longrightarrow> \<not> write_ok e \<Longrightarrow>
     run_script e fls
       = (1, [Generating (length (fetch_published_questions (table e))), ContentDone temp_pdf,
              Traceback OSError],
          fls(temp_pdf \<mapsto> ContentPdf n story, OUTPUT_PDF \<mapsto> Truncated))"
  by (simp add: run_script_def main_def generate_content_pdf_file_def add_bookmarks_file_def Let_def)

lemma run_success:
  "font_exists e \<Longrightarrow> fetch_published_questions (table e) \<noteq> [] \<Longrightarrow>
   generate_content_pdf (images e) (date e) (fetch_published_questions (table e)) = Inr story \<Longrightarrow>
   page_count e story = Some n \<Longrightarrow> reader_ok e \<Longrightarrow>
   add_bookmarks n (fetch_published_questions (table e)) = Inr w \<Longrightarrow> write_ok e \<Longrightarrow>
     run_script e fls
       = (0, [Generating (length (fetch_published_questions (table e))), ContentDone temp_pdf,
              BookmarksDone OUTPUT_PDF, Finished OUTPUT_PDF],
          (fls(temp_pdf \<mapsto> ContentPdf n story, OUTPUT_PDF \<mapsto> OutlinedPdf n w))(temp_pdf := None))"
  by (simp add: run_script_def main_def generate_content_pdf_file_def add_bookmarks_file_def Let_def)

text \<open>
  C4, as stated, fails for the empty catalog: with the font present and no published row,
  the run prints the notice that nothing is published and ends with exit status 0.
\<close>

theorem run_script_empty_catalog_counterexample:
  "font_exists (env0\<lparr>table := []\<rparr>) \<and>
   fetch_published_questions (table (env0\<lparr>table := []\<rparr>)) = [] \<and>
   exit_status (run_script (env0\<lparr>table := []\<rparr>) no_files) = 0 \<and>
   printed (run_script (env0\<lparr>table := []\<rparr>) no_files) = [NoPublished]"
  by (simp add: env0_def fetch_published_questions_def run_script_def main_def exit_status_def
      printed_def)

text \<open>
  C4, amended. For every run of the script: a missing font file ends the process with exit
  status 1 and the traceback of \<^verbatim>\<open>FileNotFoundError\<close>, raised while the module loads; with
  the font present and a non-empty catalog, a staged artifact that the reader cannot open
  ends it with exit status 1 and a traceback as the last output; an empty catalog is not a
  failure: the run prints its notice, leaves the files as they were and ends with exit
  status 0.
\<close>

theorem run_script_exit_status:
  "(\<not> font_exists e \<longrightarrow>
      exit_status (run_script e fls) = 1 \<and>
      printed (run_script e fls) = [Traceback FileNotFoundError]) \<and>
   (font_exists e \<and> fetch_published_questions (table e) \<noteq> [] \<and> \<not> reader_ok e \<longrightarrow>
      exit_status (run_script e fls) = 1 \<and>
      (\<exists>err. last (printed (run_script e fls)) = Traceback err)) \<and>
   (font_exists e \<and> fetch_published_questions (table e) = [] \<longrightarrow>
      exit_status (run_script e fls) = 0 \<and>
      printed (run_script e fls) = [NoPublished] \<and>
      files_after (run_script e fls) = fls)"
proof -
  let ?qs = "fetch_published_questions (table e)"
  have p1: "exit_status (run_script e fls) = 1 \<and>
        printed (run_script e fls) = [Traceback FileNotFoundError]" if "\<not> font_exists e"
    using run_no_font[OF that, of fls] by (simp add: exit_status_def printed_def)
  have p2: "exit_status (run_script e fls) = 1 \<and>
        (\<exists>err. last (printed (run_script e fls)) = Traceback err)"
    if a: "font_exists e \<and> ?qs \<noteq> [] \<and> \<not> reader_ok e"
  proof (cases "generate_content_pdf (images e) (date e) ?qs")
    case (Inl err)
    from a run_content_error[OF _ _ Inl, of fls] show ?thesis
      by (simp add: exit_status_def printed_def)
  next
    case (Inr story)
    show ?thesis
    proof (cases "page_count e story")
      case None
      from a run_layout_error[OF _ _ Inr None, of fls] show ?thesis
        by (simp add: exit_status_def printed_def)
    next
      case (Some n)
      from a run_reader_error[OF _ _ Inr Some, of fls] show ?thesis
        by (simp add: exit_status_def printed_def)
    qed
  qed
  have p3: "exit_status (run_script e fls) = 0 \<and>
      printed (run_script e fls) = [NoPublished] \<and>
      files_after (run_script e fls) = fls" if "font_exists e \<and> ?qs = []"
  proof -
    from that have "run_script e fls = (0, [NoPublished], fls)" by (simp add: run_empty)
    then show ?thesis by (simp add: exit_status_def printed_def files_after_def)
  qed
  from p1 p2 p3 show ?thesis by blast
qed

theorem run_script_exit_status_witness:
  "\<not> font_exists (env0\<lparr>font_exists := False\<rparr>) \<and>
   exit_status (run_script (env0\<lparr>font_exists := False\<rparr>) no_files) = 1 \<and>
   font_exists (env0\<lparr>reader_ok := False\<rparr>) \<and>
   fetch_published_questions (table (env0\<lparr>reader_ok := False\<rparr>)) \<noteq> [] \<and>
   \<not> reader_ok (env0\<lparr>reader_ok := False\<rparr>) \<and>
   exit_status (run_script (env0\<lparr>reader_ok := False\<rparr>) no_files) = 1 \<and>
   font_exists (env0\<lparr>table := []\<rparr>) \<and>
   fetch_published_questions (table (env0\<lparr>table := []\<rparr>)) = [] \<and>
   exit_status (run_script (env0\<lparr>table := []\<rparr>) no_files) = 0"
proof -
  have f: "\<not> font_exists (env0\<lparr>font_exists := False\<rparr>)" by simp
  have r: "font_exists (env0\<lparr>reader_ok := False\<rparr>)" "\<not> reader_ok (env0\<lparr>reader_ok := False\<rparr>)"
    "fetch_published_questions (table (env0\<lparr>reader_ok := False\<rparr>)) \<noteq> []"
    by (simp_all add: env0_def fetch_published_questions_def qs0_def q_ex_def)
  have t: "font_exists (env0\<lparr>table := []\<rparr>)"
    "fetch_published_questions (table (env0\<lparr>table := []\<rparr>)) = []"
    by (simp_all add: env0_def fetch_published_questions_def)
  from run_script_exit_status[of "env0\<lparr>font_exists := False\<rparr>" no_files] f
  have 1: "exit_status (run_script (env0\<lparr>font_exists := False\<rparr>) no_files) = 1" by blast
  from run_script_exit_status[of "env0\<lparr>reader_ok := False\<rparr>" no_files] r
  have 2: "exit_status (run_script (env0\<lparr>reader_ok := False\<rparr>) no_files) = 1" by blast
  from run_script_exit_status[of "env0\<lparr>table := []\<rparr>" no_files] t
  have 3: "exit_status (run_script (env0\<lparr>table := []\<rparr>) no_files) = 0" by blast
  from f r t 1 2 3 show ?thesis by blast
qed

subsection \<open>The final name\<close>

text \<open>
  C7, as stated, fails when writing the outlined artifact fails: the final name did not
  exist before the run, the run ends with exit status 1, and a truncated file is left under
  the final name.
\<close>

theorem partial_output_counterexample:
  "no_files OUTPUT_PDF = None \<and>
   exit_status (run_script (env0\<lparr>write_ok := False\<rparr>) no_files) = 1 \<and>
   files_after (run_script (env0\<lparr>write_ok := False\<rparr>) no_files) OUTPUT_PDF = Some Truncated"
  by code_simp

text \<open>
  C7, amended. In every run the content is rendered to the temporary name, and the final
  name is touched only by the outline stage, after the content was generated and laid out,
  the temporary artifact was read back and the outline was built; what is then under the
  final name is the outlined artifact when the write runs to its end, and a truncated file
  when it does not. A run that ends with status 0 on a non-empty catalog leaves the outlined
  artifact under the final name and nothing under the temporary name. A run that fails
  while the write itself would have succeeded leaves the final name as it was.
\<close>

theorem final_name_written_by_outline_stage:
  "(files_after (run_script e fls) OUTPUT_PDF \<noteq> fls OUTPUT_PDF \<longrightarrow>
      (\<exists>story n w.
         font_exists e \<and> fetch_published_questions (table e) \<noteq> [] \<and>
         generate_content_pdf (images e) (date e) (fetch_published_questions (table e)) = Inr story \<and>
         page_count e story = Some n \<and> reader_ok e \<and>
         add_bookmarks n (fetch_published_questions (table e)) = Inr w \<and>
         files_after (run_script e fls) OUTPUT_PDF
           = (if write_ok e then Some (OutlinedPdf n w) else Some Truncated))) \<and>
   (exit_status (run_script e fls) = 0 \<and> fetch_published_questions (table e) \<noteq> [] \<longrightarrow>
      (\<exists>n w. files_after (run_script e fls) OUTPUT_PDF = Some (OutlinedPdf n w)) \<and>
      files_after (run_script e fls) temp_pdf = None) \<and>
   (exit_status (run_script e fls) \<noteq> 0 \<and> write_ok e \<longrightarrow>
      files_after (run_script e fls) OUTPUT_PDF = fls OUTPUT_PDF)"
proof -
  let ?qs = "fetch_published_questions (table e)"
  let ?r = "run_script e fls"
  note sel = exit_status_def printed_def files_after_def
  show ?thesis
  proof (cases "font_exists e")
    case False
    from run_no_font[OF this, of fls] show ?thesis by (simp add: sel)
  next
    case font: True
    show ?thesis
    proof (cases "?qs = []")
      case True
      from run_empty[OF font this, of fls] True show ?thesis by (simp add: sel)
    next
      case ne: False
      show ?thesis
      proof (cases "generate_content_pdf (images e) (date e) ?qs")
        case (Inl err)
        from run_content_error[OF font ne Inl, of fls] show ?thesis by (simp add: sel)
      next
        case (Inr story)
        show ?thesis
        proof (cases "page_count e story")
          case None
          from run_layout_error[OF font ne Inr None, of fls] show ?thesis by (simp add: sel)
        next
          case (Some n)
          show ?thesis
          proof (cases "reader_ok e")
            case False
            from run_reader_error[OF font ne Inr Some False, of fls] names_differ
            show ?thesis by (simp add: sel)
          next
            case rd: True
            show ?thesis
            proof (cases "add_bookmarks n ?qs")
              case (Inl err)
              from run_outline_error[OF font ne Inr Some rd Inl, of fls] names_differ
              show ?thesis by (simp add: sel)
            next
              case w: (Inr w)
              show ?thesis
              proof (cases "write_ok e")
                case False
                from run_write_error[OF font ne Inr Some rd w False, of fls] names_differ
                  font ne Inr Some rd w False
                show ?thesis by (simp add: sel)
              next
                case True
                from run_success[OF font ne Inr Some rd w True, of fls] names_differ
                  font ne Inr Some rd w True
                show ?thesis by (simp add: sel)
              qed
            qed
          qed
        qed
      qed
    qed
  qed
qed

theorem final_name_written_by_outline_stage_witness:
  "files_after (run_script env0 no_files) OUTPUT_PDF \<noteq> no_files OUTPUT_PDF \<and>
   exit_status (run_script env0 no_files) = 0 \<and>
   fetch_published_questions (table env0) \<noteq> [] \<and>
   files_after (run_script env0 no_files) temp_pdf = None \<and>
   (\<exists>w. files_after (run_script env0 no_files) OUTPUT_PDF = Some (OutlinedPdf 5 w)) \<and>
   exit_status (run_script (env0\<lparr>reader_ok := False\<rparr>) no_files) \<noteq> 0 \<and>
   write_ok (env0\<lparr>reader_ok := False\<rparr>) \<and>
   files_after (run_script (env0\<lparr>reader_ok := False\<rparr>) no_files) OUTPUT_PDF = None"
proof -
  have a: "exit_status (run_script env0 no_files) = 0" by code_simp
  have b: "fetch_published_questions (table env0) \<noteq> []"
    by (simp add: env0_def fetch_published_questions_def qs0_def q_ex_def)
  have c: "files_after (run_script env0 no_files) OUTPUT_PDF \<noteq> no_files OUTPUT_PDF" by code_simp
  have p: "page_count env0 = (\<lambda>story. Some 5)" "write_ok env0" by (simp_all add: env0_def)
  have d: "exit_status (run_script (env0\<lparr>reader_ok := False\<rparr>) no_files) \<noteq> 0" by code_simp
  have e: "write_ok (env0\<lparr>reader_ok := False\<rparr>)" by (simp add: env0_def)
  have n: "no_files OUTPUT_PDF = None" by (simp add: no_files_def)
  from final_name_written_by_outline_stage[of env0 no_files] a b c p
  have 1: "files_after (run_script env0 no_files) temp_pdf = None"
    "\<exists>w. files_after (run_script env0 no_files) OUTPUT_PDF = Some (OutlinedPdf 5 w)"
    by auto
  from final_name_written_by_outline_stage[of "env0\<lparr>reader_ok := False\<rparr>" no_files] d e n
  have 2: "files_after (run_script (env0\<lparr>reader_ok := False\<rparr>) no_files) OUTPUT_PDF = None"
    by simp
  from a b c d e 1 2 show ?thesis by simp
qed

end
